theory Spec2Isabelle
  imports Complex_Main
begin

section \<open>Billiard physics core: data model\<close>

text \<open>
  The Python source computes with IEEE floats. The embedding reads every float as a
  real number: arithmetic is exact, \<open>math.sqrt\<close> is the real square root, and no value
  overflows or is NaN. The only Python exception the physics code can raise in this
  reading is the \<open>ZeroDivisionError\<close> of a float division, which is kept as a value.
\<close>

datatype error = ZeroDivisionError

definition SCREEN_WIDTH :: real where "SCREEN_WIDTH = 1200"
definition SCREEN_HEIGHT :: real where "SCREEN_HEIGHT = 700"
definition FRICTION :: real where "FRICTION = 0.985"
definition ROTATIONAL_FRICTION :: real where "ROTATIONAL_FRICTION = 0.96"
definition WALL_BOUNCE :: real where "WALL_BOUNCE = 0.78"
definition BALL_RADIUS :: real where "BALL_RADIUS = 14"
definition POCKET_RADIUS :: real where "POCKET_RADIUS = 32"
definition SPIN_EFFECT :: real where "SPIN_EFFECT = 0.15"

datatype BallType = CUE | SOLID | STRIPE | EIGHT | SPECIAL

record TrailPoint =
  tp_x :: real
  tp_y :: real
  tp_time :: real
  tp_visible :: bool

text \<open>
  The fields of class \<open>Ball\<close> that the physics reads or writes. \<open>center_x\<close>,
  \<open>center_y\<close>, \<open>change_x\<close> and \<open>change_y\<close> are inherited from the sprite class.
  The constructor sets \<open>mass\<close> to 1.0 and nothing assigns it afterwards.
\<close>

record Ball =
  center_x :: real
  center_y :: real
  change_x :: real
  change_y :: real
  ball_type :: BallType
  number :: int
  angular_velocity :: real
  rotation :: real
  in_pocket :: bool
  trail :: "TrailPoint list"
  last_update_time :: real
  highlight :: bool
  highlight_time :: real
  mass :: real

text \<open>
  \<open>new_ball x y bt n now\<close> is \<open>Ball(x, y, color, bt, n)\<close> built at time \<open>now\<close>: the
  sprite starts with zero velocity, and the colour only matters to drawing.
\<close>

definition new_ball :: "real \<Rightarrow> real \<Rightarrow> BallType \<Rightarrow> int \<Rightarrow> real \<Rightarrow> Ball" where
  "new_ball x y bt n now =
     \<lparr>center_x = x, center_y = y, change_x = 0, change_y = 0, ball_type = bt, number = n,
      angular_velocity = 0, rotation = 0, in_pocket = False, trail = [],
      last_update_time = now, highlight = False, highlight_time = 0, mass = 1\<rparr>"

section \<open>Ball.update\<close>

text \<open>
  \<open>update b delta_time current_time\<close> is \<open>Ball.update(self, delta_time)\<close>, with the
  value of \<open>time.time()\<close> read at the start of the call as the third argument. The body
  is cut into its consecutive blocks; \<open>update\<close> runs them in the source's order.
\<close>

definition advance :: "Ball \<Rightarrow> Ball" where
  "advance b = b\<lparr>center_x := center_x b + change_x b, center_y := center_y b + change_y b\<rparr>"

definition ball_speed :: "Ball \<Rightarrow> real" where
  "ball_speed b = sqrt ((change_x b)\<^sup>2 + (change_y b)\<^sup>2)"

text \<open>The block under \<open>if speed > 0\<close>.\<close>

definition friction_and_spin :: "real \<Rightarrow> real \<Rightarrow> Ball \<Rightarrow> Ball" where
  "friction_and_spin speed delta_time b =
     (let friction = FRICTION - (speed * 0.0005);
          b1 = b\<lparr>change_x := change_x b * friction, change_y := change_y b * friction\<rparr>;
          b2 = b1\<lparr>rotation := rotation b1 + angular_velocity b1 * delta_time * 30\<rparr>;
          b3 = b2\<lparr>angular_velocity := angular_velocity b2 * ROTATIONAL_FRICTION\<rparr>
      in if \<bar>angular_velocity b3\<bar> > 0.1
         then b3\<lparr>change_x := change_x b3 + angular_velocity b3 * SPIN_EFFECT * delta_time,
                 change_y := change_y b3 - angular_velocity b3 * SPIN_EFFECT * delta_time\<rparr>
         else b3)"

text \<open>The two component-wise snaps to zero.\<close>

definition snap_velocity :: "Ball \<Rightarrow> Ball" where
  "snap_velocity b =
     (let b1 = (if \<bar>change_x b\<bar> < 0.08 then b\<lparr>change_x := 0\<rparr> else b)
      in if \<bar>change_y b1\<bar> < 0.08 then b1\<lparr>change_y := 0\<rparr> else b1)"

text \<open>The trail: append above speed 2, drop the oldest beyond ten, keep the recent.\<close>

definition update_trail :: "real \<Rightarrow> real \<Rightarrow> Ball \<Rightarrow> Ball" where
  "update_trail speed current_time b =
     (let b1 = (if speed > 2.0
                then b\<lparr>trail := trail b @
                       [\<lparr>tp_x = center_x b, tp_y = center_y b, tp_time = current_time,
                         tp_visible = True\<rparr>]\<rparr>
                else b);
          b2 = (if length (trail b1) > 10 then b1\<lparr>trail := tl (trail b1)\<rparr> else b1)
      in b2\<lparr>trail := filter (\<lambda>p. current_time - tp_time p < 0.5) (trail b2)\<rparr>)"

definition update_highlight :: "real \<Rightarrow> Ball \<Rightarrow> Ball" where
  "update_highlight delta_time b =
     (if highlight b
      then (let b1 = b\<lparr>highlight_time := highlight_time b + delta_time\<rparr>
            in if highlight_time b1 > 1.0 then b1\<lparr>highlight := False\<rparr> else b1)
      else b)"

definition update :: "Ball \<Rightarrow> real \<Rightarrow> real \<Rightarrow> Ball" where
  "update b delta_time current_time =
     (let b1 = advance b;
          speed = ball_speed b1;
          b2 = (if speed > 0 then friction_and_spin speed delta_time b1 else b1);
          b3 = snap_velocity b2;
          b4 = update_trail speed current_time b3;
          b5 = update_highlight delta_time b4
      in b5\<lparr>last_update_time := current_time\<rparr>)"

text \<open>
  The lateral velocity that the spin adds within one call: the term the block under
  \<open>if abs(self.angular_velocity) > 0.1\<close> adds to \<open>change_x\<close> and subtracts from
  \<open>change_y\<close>, computed from the angular velocity after rotational friction. The block
  is only reached by a moving ball.
\<close>

definition spin_drift :: "Ball \<Rightarrow> real \<Rightarrow> real" where
  "spin_drift b delta_time =
     (if ball_speed b > 0 \<and> \<bar>angular_velocity b * ROTATIONAL_FRICTION\<bar> > 0.1
      then angular_velocity b * ROTATIONAL_FRICTION * SPIN_EFFECT * delta_time else 0)"

section \<open>GamePhysics.resolve_ball_collision\<close>

text \<open>
  The two balls are distinct objects at every call site (indices \<open>i < j\<close> of one list),
  so the pair of updated balls is returned. The only division that can fail is the one
  by \<open>ball1.mass + ball2.mass\<close>; the one by \<open>distance\<close> is guarded by the first test.
\<close>

definition center_distance :: "Ball \<Rightarrow> Ball \<Rightarrow> real" where
  "center_distance ball1 ball2 =
     (let dx = center_x ball2 - center_x ball1;
          dy = center_y ball2 - center_y ball1
      in sqrt (dx * dx + dy * dy))"

definition resolve_ball_collision :: "Ball \<Rightarrow> Ball \<Rightarrow> error + (Ball \<times> Ball)" where
  "resolve_ball_collision ball1 ball2 =
     (let dx = center_x ball2 - center_x ball1;
          dy = center_y ball2 - center_y ball1;
          distance = sqrt (dx * dx + dy * dy)
      in if distance = 0 \<or> distance > BALL_RADIUS * 2 then Inr (ball1, ball2)
         else
          (let nx = dx / distance; ny = dy / distance;
               overlap = (BALL_RADIUS * 2) - distance;
               separation = overlap * 0.5;
               p1 = ball1\<lparr>center_x := center_x ball1 - nx * separation,
                          center_y := center_y ball1 - ny * separation\<rparr>;
               p2 = ball2\<lparr>center_x := center_x ball2 + nx * separation,
                          center_y := center_y ball2 + ny * separation\<rparr>;
               dvx = change_x p2 - change_x p1;
               dvy = change_y p2 - change_y p1;
               speed_along_normal = dvx * nx + dvy * ny
           in if speed_along_normal > 0 then Inr (p1, p2)
              else if mass p1 + mass p2 = 0 then Inl ZeroDivisionError
              else
               (let restitution = 0.9;
                    impulse = (2 * speed_along_normal / (mass p1 + mass p2)) * restitution;
                    q1 = p1\<lparr>change_x := change_x p1 + impulse * mass p2 * nx,
                            change_y := change_y p1 + impulse * mass p2 * ny\<rparr>;
                    q2 = p2\<lparr>change_x := change_x p2 - impulse * mass q1 * nx,
                            change_y := change_y p2 - impulse * mass q1 * ny\<rparr>
                in if \<bar>angular_velocity q1\<bar> > 0.1
                   then (let transfer = angular_velocity q1 * 0.3
                         in Inr (q1\<lparr>angular_velocity := angular_velocity q1 - transfer\<rparr>,
                                 q2\<lparr>angular_velocity := angular_velocity q2 + transfer\<rparr>))
                   else Inr (q1, q2))))"

text \<open>Total momentum and kinetic energy of a pair, as the properties below measure them.\<close>

definition momentum_x :: "Ball \<Rightarrow> Ball \<Rightarrow> real" where
  "momentum_x a b = mass a * change_x a + mass b * change_x b"

definition momentum_y :: "Ball \<Rightarrow> Ball \<Rightarrow> real" where
  "momentum_y a b = mass a * change_y a + mass b * change_y b"

definition kinetic_energy :: "Ball \<Rightarrow> Ball \<Rightarrow> real" where
  "kinetic_energy a b =
     0.5 * mass a * ((change_x a)\<^sup>2 + (change_y a)\<^sup>2)
     + 0.5 * mass b * ((change_x b)\<^sup>2 + (change_y b)\<^sup>2)"

section \<open>GamePhysics.check_wall_collision\<close>

text \<open>
  \<open>ball.left\<close>, \<open>ball.right\<close>, \<open>ball.bottom\<close> and \<open>ball.top\<close> are properties of the
  sprite library: the edges of the sprite, which for a circle sprite of radius
  \<open>BALL_RADIUS\<close> lie that far from the center. Assigning one of them shifts the center
  by the difference between the new and the old edge.
\<close>

definition ball_left :: "Ball \<Rightarrow> real" where "ball_left b = center_x b - BALL_RADIUS"
definition ball_right :: "Ball \<Rightarrow> real" where "ball_right b = center_x b + BALL_RADIUS"
definition ball_bottom :: "Ball \<Rightarrow> real" where "ball_bottom b = center_y b - BALL_RADIUS"
definition ball_top :: "Ball \<Rightarrow> real" where "ball_top b = center_y b + BALL_RADIUS"

definition set_left :: "real \<Rightarrow> Ball \<Rightarrow> Ball" where
  "set_left v b = b\<lparr>center_x := center_x b + (v - ball_left b)\<rparr>"
definition set_right :: "real \<Rightarrow> Ball \<Rightarrow> Ball" where
  "set_right v b = b\<lparr>center_x := center_x b + (v - ball_right b)\<rparr>"
definition set_bottom :: "real \<Rightarrow> Ball \<Rightarrow> Ball" where
  "set_bottom v b = b\<lparr>center_y := center_y b + (v - ball_bottom b)\<rparr>"
definition set_top :: "real \<Rightarrow> Ball \<Rightarrow> Ball" where
  "set_top v b = b\<lparr>center_y := center_y b + (v - ball_top b)\<rparr>"

definition left_bound :: real where "left_bound = 65"
definition right_bound :: real where "right_bound = SCREEN_WIDTH - 65"
definition bottom_bound :: real where "bottom_bound = 65"
definition top_bound :: real where "top_bound = SCREEN_HEIGHT - 65"

text \<open>The result is the returned flag together with the ball as the call leaves it.\<close>

definition check_wall_collision :: "Ball \<Rightarrow> bool \<times> Ball" where
  "check_wall_collision ball =
     (if ball_left ball < left_bound then
        (True, (set_left left_bound ball)
                 \<lparr>change_x := \<bar>change_x ball\<bar> * WALL_BOUNCE,
                  angular_velocity := angular_velocity ball * (- 0.8)\<rparr>)
      else if ball_right ball > right_bound then
        (True, (set_right right_bound ball)
                 \<lparr>change_x := - \<bar>change_x ball\<bar> * WALL_BOUNCE,
                  angular_velocity := angular_velocity ball * (- 0.8)\<rparr>)
      else if ball_bottom ball < bottom_bound then
        (True, (set_bottom bottom_bound ball)
                 \<lparr>change_y := \<bar>change_y ball\<bar> * WALL_BOUNCE,
                  angular_velocity := angular_velocity ball * (- 0.8)\<rparr>)
      else if ball_top ball > top_bound then
        (True, (set_top top_bound ball)
                 \<lparr>change_y := - \<bar>change_y ball\<bar> * WALL_BOUNCE,
                  angular_velocity := angular_velocity ball * (- 0.8)\<rparr>)
      else (False, ball))"

text \<open>The ball lies fully inside the playable rectangle.\<close>

definition inside_bounds :: "Ball \<Rightarrow> bool" where
  "inside_bounds b \<longleftrightarrow>
     left_bound \<le> ball_left b \<and> ball_right b \<le> right_bound \<and>
     bottom_bound \<le> ball_bottom b \<and> ball_top b \<le> top_bound"

section \<open>GameView.check_pocket_collisions\<close>

text \<open>\<open>BilliardTable.pocket_locations\<close>, in the order of the list literal.\<close>

definition pocket_locations :: "(real \<times> real) list" where
  "pocket_locations =
     [(60, 60), (600, 50), (SCREEN_WIDTH - 60, 60),
      (60, SCREEN_HEIGHT - 60), (600, SCREEN_HEIGHT - 50),
      (SCREEN_WIDTH - 60, SCREEN_HEIGHT - 60)]"

definition pocket_distance :: "Ball \<Rightarrow> real \<times> real \<Rightarrow> real" where
  "pocket_distance ball p = sqrt ((center_x ball - fst p)\<^sup>2 + (center_y ball - snd p)\<^sup>2)"

text \<open>
  The inner loop over the pockets, with its \<open>break\<close>: the pocket handed to
  \<open>on_ball_potted\<close>, or \<open>None\<close> when the loop ends without a call.
\<close>

fun pocket_scan :: "Ball \<Rightarrow> (real \<times> real) list \<Rightarrow> (real \<times> real) option" where
  "pocket_scan ball [] = None"
| "pocket_scan ball (p # ps) =
     (if pocket_distance ball p < POCKET_RADIUS then Some p else pocket_scan ball ps)"

text \<open>
  What \<open>on_ball_potted\<close> does to the ball itself: the cue ball is put back at
  \<open>(300, SCREEN_HEIGHT // 2)\<close> at rest and stays in play; any other ball is flagged and
  leaves the sprite list (\<open>None\<close>). Sound, particles, score and turn bookkeeping of the
  game layer are not part of the physics state.
\<close>

definition on_ball_potted :: "Ball \<Rightarrow> Ball option" where
  "on_ball_potted ball =
     (if ball_type ball = CUE
      then Some (ball\<lparr>center_x := 300, center_y := 350, change_x := 0, change_y := 0,
                      in_pocket := False\<rparr>)
      else None)"

text \<open>
  The outer loop over a copy of the ball list: the balls left in the list afterwards and
  the capture events \<open>(ball number, pocket)\<close> in the order they were raised.
\<close>

fun check_pocket_collisions ::
  "(real \<times> real) list \<Rightarrow> Ball list \<Rightarrow> Ball list \<times> (int \<times> (real \<times> real)) list" where
  "check_pocket_collisions pockets [] = ([], [])"
| "check_pocket_collisions pockets (ball # balls) =
     (let (rest, events) = check_pocket_collisions pockets balls
      in if in_pocket ball then (ball # rest, events)
         else (case pocket_scan ball pockets of
                 None \<Rightarrow> (ball # rest, events)
               | Some p \<Rightarrow>
                   ((case on_ball_potted ball of None \<Rightarrow> rest | Some b' \<Rightarrow> b' # rest),
                    (number ball, p) # events)))"

section \<open>Arithmetic behind the collision response\<close>

lemma sqrt_400: "sqrt (400::real) = 20"
  by (rule real_sqrt_unique) simp_all

lemma unit_normal_aux:
  fixes d dx dy :: real
  assumes sq: "d * d = dx * dx + dy * dy" and nz: "d \<noteq> 0"
  shows "(dx / d) * (dx / d) + (dy / d) * (dy / d) = 1"
proof -
  have "(dx / d) * (dx / d) + (dy / d) * (dy / d) = (dx * dx + dy * dy) / (d * d)"
    by (simp add: add_divide_distrib)
  also have "\<dots> = (d * d) / (d * d)" by (simp only: sq)
  also have "\<dots> = 1" using nz by simp
  finally show ?thesis .
qed

lemma impulse_momentum:
  fixes m1 m2 j v1 v2 n :: real
  shows "m1 * (v1 + j * m2 * n) + m2 * (v2 - j * m1 * n) = m1 * v1 + m2 * v2"
  by (simp add: algebra_simps)

lemma impulse_energy:
  fixes m1 m2 s nx ny v1x v1y v2x v2y :: real
  assumes unit: "nx * nx + ny * ny = 1"
    and m1: "0 < m1" and m2: "0 < m2"
    and s: "s = (v2x - v1x) * nx + (v2y - v1y) * ny"
    and j: "j = (2 * s / (m1 + m2)) * 0.9"
  shows "0.5 * m1 * ((v1x + j * m2 * nx)\<^sup>2 + (v1y + j * m2 * ny)\<^sup>2)
       + 0.5 * m2 * ((v2x - j * m1 * nx)\<^sup>2 + (v2y - j * m1 * ny)\<^sup>2)
       \<le> 0.5 * m1 * (v1x\<^sup>2 + v1y\<^sup>2) + 0.5 * m2 * (v2x\<^sup>2 + v2y\<^sup>2)"
proof -
  define M where "M = m1 + m2"
  define A where "A = j * m1 * m2 * s"
  define Q where "Q = 0.5 * j * j * m1 * m2 * M"
  define E0 where "E0 = 0.5 * m1 * (v1x\<^sup>2 + v1y\<^sup>2) + 0.5 * m2 * (v2x\<^sup>2 + v2y\<^sup>2)"
  define E1 where "E1 = 0.5 * m1 * ((v1x + j * m2 * nx)\<^sup>2 + (v1y + j * m2 * ny)\<^sup>2)
       + 0.5 * m2 * ((v2x - j * m1 * nx)\<^sup>2 + (v2y - j * m1 * ny)\<^sup>2)"
  have M: "0 < M" using m1 m2 by (simp add: M_def)
  have expand: "E1 = E0 - A + Q * (nx * nx + ny * ny)"
    unfolding E1_def E0_def A_def Q_def M_def s
    by (simp add: power2_eq_square algebra_simps)
  have jM: "j * M = 1.8 * s" using M j by (simp add: M_def field_simps)
  have "Q = 0.5 * (j * m1 * m2) * (j * M)" by (simp add: Q_def)
  also have "\<dots> = 0.5 * (j * m1 * m2) * (1.8 * s)" by (simp only: jM)
  also have "\<dots> = 0.9 * A" by (simp add: A_def)
  finally have quad: "Q = 0.9 * A" .
  have "(j * s) * M = (j * M) * s" by (simp only: mult_ac)
  also have "\<dots> = 1.8 * (s * s)" unfolding jM by simp
  finally have eq: "(j * s) * M = 1.8 * (s * s)" .
  have "0 \<le> 1.8 * (s * s)" by simp
  then have "0 \<le> (j * s) * M" by (simp only: eq)
  then have js: "0 \<le> j * s" using M by (simp add: zero_le_mult_iff)
  have "A = (m1 * m2) * (j * s)" by (simp add: A_def)
  moreover have "0 \<le> (m1 * m2) * (j * s)" using m1 m2 js by simp
  ultimately have A: "0 \<le> A" by simp
  have "E1 = E0 - A + 0.9 * A" using expand quad unit by simp
  then have "E1 \<le> E0" using A by simp
  then show ?thesis by (simp only: E1_def E0_def)
qed

section \<open>The branches of resolve_ball_collision\<close>

lemma resolve_hit:
  assumes dx: "dx = center_x ball2 - center_x ball1"
    and dy: "dy = center_y ball2 - center_y ball1"
    and d: "d = sqrt (dx * dx + dy * dy)"
    and nx: "nx = dx / d" and ny: "ny = dy / d"
    and s: "s = (change_x ball2 - change_x ball1) * nx + (change_y ball2 - change_y ball1) * ny"
    and j: "j = (2 * s / (mass ball1 + mass ball2)) * 0.9"
    and near: "d \<noteq> 0" "d \<le> BALL_RADIUS * 2"
    and approaching: "s \<le> 0"
    and masses: "mass ball1 + mass ball2 \<noteq> 0"
  shows "\<exists>b1' b2'. resolve_ball_collision ball1 ball2 = Inr (b1', b2')
           \<and> change_x b1' = change_x ball1 + j * mass ball2 * nx
           \<and> change_y b1' = change_y ball1 + j * mass ball2 * ny
           \<and> change_x b2' = change_x ball2 - j * mass ball1 * nx
           \<and> change_y b2' = change_y ball2 - j * mass ball1 * ny
           \<and> mass b1' = mass ball1 \<and> mass b2' = mass ball2
           \<and> center_x b1' = center_x ball1 - nx * ((BALL_RADIUS * 2 - d) * 0.5)
           \<and> center_y b1' = center_y ball1 - ny * ((BALL_RADIUS * 2 - d) * 0.5)
           \<and> center_x b2' = center_x ball2 + nx * ((BALL_RADIUS * 2 - d) * 0.5)
           \<and> center_y b2' = center_y ball2 + ny * ((BALL_RADIUS * 2 - d) * 0.5)"
  using near approaching masses
  unfolding resolve_ball_collision_def Let_def j s nx ny d dx dy
  by (simp del: real_sqrt_eq_zero_cancel_iff)

lemma resolve_separating:
  assumes dx: "dx = center_x ball2 - center_x ball1"
    and dy: "dy = center_y ball2 - center_y ball1"
    and d: "d = sqrt (dx * dx + dy * dy)"
    and nx: "nx = dx / d" and ny: "ny = dy / d"
    and s: "s = (change_x ball2 - change_x ball1) * nx + (change_y ball2 - change_y ball1) * ny"
    and near: "d \<noteq> 0" "d \<le> BALL_RADIUS * 2"
    and separating: "s > 0"
  shows "resolve_ball_collision ball1 ball2 =
           Inr (ball1\<lparr>center_x := center_x ball1 - nx * ((BALL_RADIUS * 2 - d) * 0.5),
                       center_y := center_y ball1 - ny * ((BALL_RADIUS * 2 - d) * 0.5)\<rparr>,
                ball2\<lparr>center_x := center_x ball2 + nx * ((BALL_RADIUS * 2 - d) * 0.5),
                       center_y := center_y ball2 + ny * ((BALL_RADIUS * 2 - d) * 0.5)\<rparr>)"
  using near separating
  unfolding resolve_ball_collision_def Let_def s nx ny d dx dy
  by (simp del: real_sqrt_eq_zero_cancel_iff)

lemma resolve_far_or_coincident:
  assumes "sqrt ((center_x ball2 - center_x ball1) * (center_x ball2 - center_x ball1)
               + (center_y ball2 - center_y ball1) * (center_y ball2 - center_y ball1)) = 0
           \<or> sqrt ((center_x ball2 - center_x ball1) * (center_x ball2 - center_x ball1)
               + (center_y ball2 - center_y ball1) * (center_y ball2 - center_y ball1))
               > BALL_RADIUS * 2"
  shows "resolve_ball_collision ball1 ball2 = Inr (ball1, ball2)"
  using assms unfolding resolve_ball_collision_def Let_def
  by (simp del: real_sqrt_eq_zero_cancel_iff)


lemma resolve_positions:
  assumes near: "center_distance ball1 ball2 \<noteq> 0" "center_distance ball1 ball2 \<le> BALL_RADIUS * 2"
    and masses: "mass ball1 + mass ball2 \<noteq> 0"
  shows "\<exists>b1' b2'. resolve_ball_collision ball1 ball2 = Inr (b1', b2')
     \<and> center_x b1' = center_x ball1
          - (center_x ball2 - center_x ball1) / center_distance ball1 ball2
            * ((BALL_RADIUS * 2 - center_distance ball1 ball2) * 0.5)
     \<and> center_y b1' = center_y ball1
          - (center_y ball2 - center_y ball1) / center_distance ball1 ball2
            * ((BALL_RADIUS * 2 - center_distance ball1 ball2) * 0.5)
     \<and> center_x b2' = center_x ball2
          + (center_x ball2 - center_x ball1) / center_distance ball1 ball2
            * ((BALL_RADIUS * 2 - center_distance ball1 ball2) * 0.5)
     \<and> center_y b2' = center_y ball2
          + (center_y ball2 - center_y ball1) / center_distance ball1 ball2
            * ((BALL_RADIUS * 2 - center_distance ball1 ball2) * 0.5)"
proof -
  define dx where "dx = center_x ball2 - center_x ball1"
  define dy where "dy = center_y ball2 - center_y ball1"
  define d where "d = sqrt (dx * dx + dy * dy)"
  define nx where "nx = dx / d"
  define ny where "ny = dy / d"
  define s where "s = (change_x ball2 - change_x ball1) * nx + (change_y ball2 - change_y ball1) * ny"
  define j where "j = (2 * s / (mass ball1 + mass ball2)) * 0.9"
  have cd: "center_distance ball1 ball2 = d"
    by (simp add: center_distance_def Let_def d_def dx_def dy_def)
  have n1: "d \<noteq> 0" and n2: "d \<le> BALL_RADIUS * 2" using near cd by simp_all
  show ?thesis
  proof (cases "s > 0")
    case True
    from resolve_separating [OF dx_def dy_def d_def nx_def ny_def s_def n1 n2 True]
    show ?thesis unfolding cd nx_def ny_def dx_def dy_def by simp
  next
    case False
    then have "s \<le> 0" by simp
    from resolve_hit [OF dx_def dy_def d_def nx_def ny_def s_def j_def n1 n2 this masses]
    show ?thesis unfolding cd nx_def ny_def dx_def dy_def by blast
  qed
qed

lemma pushed_apart:
  fixes x1 y1 x2 y2 R :: real
  assumes d: "d = sqrt ((x2 - x1) * (x2 - x1) + (y2 - y1) * (y2 - y1))"
    and nz: "d \<noteq> 0" and R: "0 \<le> R"
    and sep: "sep = (R * 2 - d) * 0.5"
  shows "sqrt (((x2 + (x2 - x1) / d * sep) - (x1 - (x2 - x1) / d * sep))
               * ((x2 + (x2 - x1) / d * sep) - (x1 - (x2 - x1) / d * sep))
             + ((y2 + (y2 - y1) / d * sep) - (y1 - (y2 - y1) / d * sep))
               * ((y2 + (y2 - y1) / d * sep) - (y1 - (y2 - y1) / d * sep)))
         = R * 2"
proof -
  define nx where "nx = (x2 - x1) / d"
  define ny where "ny = (y2 - y1) / d"
  have dd: "d * d = (x2 - x1) * (x2 - x1) + (y2 - y1) * (y2 - y1)"
    unfolding d by simp
  have unit: "nx * nx + ny * ny = 1"
    unfolding nx_def ny_def by (rule unit_normal_aux [OF dd nz])
  have ex: "(x2 + nx * sep) - (x1 - nx * sep) = nx * (R * 2)"
  proof -
    have "x2 - x1 = nx * d" using nz by (simp add: nx_def)
    then have "(x2 + nx * sep) - (x1 - nx * sep) = nx * d + 2 * (nx * sep)" by simp
    also have "\<dots> = nx * (R * 2)" unfolding sep by (simp add: algebra_simps)
    finally show ?thesis .
  qed
  have ey: "(y2 + ny * sep) - (y1 - ny * sep) = ny * (R * 2)"
  proof -
    have "y2 - y1 = ny * d" using nz by (simp add: ny_def)
    then have "(y2 + ny * sep) - (y1 - ny * sep) = ny * d + 2 * (ny * sep)" by simp
    also have "\<dots> = ny * (R * 2)" unfolding sep by (simp add: algebra_simps)
    finally show ?thesis .
  qed
  have "(nx * (R * 2)) * (nx * (R * 2)) + (ny * (R * 2)) * (ny * (R * 2))
        = (R * 2) * (R * 2) * (nx * nx + ny * ny)" by (simp add: algebra_simps)
  also have "\<dots> = (R * 2) * (R * 2)" unfolding unit by simp
  finally have "sqrt ((nx * (R * 2)) * (nx * (R * 2)) + (ny * (R * 2)) * (ny * (R * 2)))
        = sqrt ((R * 2) * (R * 2))" by simp
  also have "\<dots> = \<bar>R * 2\<bar>" by (rule real_sqrt_abs2)
  also have "\<dots> = R * 2" using R by simp
  finally show ?thesis unfolding ex [unfolded nx_def] ey [unfolded ny_def] nx_def ny_def .
qed

section \<open>Properties of the pairwise collision response\<close>

text \<open>
  C1. With positive masses (every ball is built with mass 1.0) the call returns, and the
  kinetic energy \<open>0.5*m1*|v1|^2 + 0.5*m2*|v2|^2\<close> of the pair after it is at most the
  energy before it. This holds for every pair of positions, so in particular for two
  overlapping balls, and for arbitrary velocities.
\<close>

theorem resolve_never_gains_energy:
  assumes m1: "0 < mass ball1" and m2: "0 < mass ball2"
  shows "\<exists>b1' b2'. resolve_ball_collision ball1 ball2 = Inr (b1', b2')
           \<and> kinetic_energy b1' b2' \<le> kinetic_energy ball1 ball2"
proof -
  define dx where "dx = center_x ball2 - center_x ball1"
  define dy where "dy = center_y ball2 - center_y ball1"
  define d where "d = sqrt (dx * dx + dy * dy)"
  define nx where "nx = dx / d"
  define ny where "ny = dy / d"
  define s where "s = (change_x ball2 - change_x ball1) * nx + (change_y ball2 - change_y ball1) * ny"
  define j where "j = (2 * s / (mass ball1 + mass ball2)) * 0.9"
  consider (skip) "d = 0 \<or> d > BALL_RADIUS * 2"
    | (separating) "d \<noteq> 0" "d \<le> BALL_RADIUS * 2" "s > 0"
    | (hit) "d \<noteq> 0" "d \<le> BALL_RADIUS * 2" "s \<le> 0"
    by fastforce
  then show ?thesis
  proof cases
    case skip
    then have "resolve_ball_collision ball1 ball2 = Inr (ball1, ball2)"
      unfolding d_def dx_def dy_def by (rule resolve_far_or_coincident)
    then show ?thesis by simp
  next
    case separating
    from resolve_separating [OF dx_def dy_def d_def nx_def ny_def s_def separating]
    show ?thesis by (simp add: kinetic_energy_def)
  next
    case hit
    have masses: "mass ball1 + mass ball2 \<noteq> 0" using m1 m2 by simp
    from resolve_hit [OF dx_def dy_def d_def nx_def ny_def s_def j_def hit masses]
    obtain b1' b2' where r: "resolve_ball_collision ball1 ball2 = Inr (b1', b2')"
      and v: "change_x b1' = change_x ball1 + j * mass ball2 * nx"
             "change_y b1' = change_y ball1 + j * mass ball2 * ny"
             "change_x b2' = change_x ball2 - j * mass ball1 * nx"
             "change_y b2' = change_y ball2 - j * mass ball1 * ny"
      and m: "mass b1' = mass ball1" "mass b2' = mass ball2"
      by blast
    have dd: "d * d = dx * dx + dy * dy" unfolding d_def by simp
    have unit: "nx * nx + ny * ny = 1"
      unfolding nx_def ny_def by (rule unit_normal_aux [OF dd hit(1)])
    have "kinetic_energy b1' b2' \<le> kinetic_energy ball1 ball2"
      unfolding kinetic_energy_def v m
      by (rule impulse_energy [OF unit m1 m2 s_def j_def])
    with r show ?thesis by blast
  qed
qed

theorem resolve_never_gains_energy_witness:
  "0 < mass ((new_ball 0 0 CUE 0 0)\<lparr>change_x := 5\<rparr>) \<and> 0 < mass (new_ball 20 0 SOLID 1 0)
   \<and> (\<exists>b1' b2'. resolve_ball_collision ((new_ball 0 0 CUE 0 0)\<lparr>change_x := 5\<rparr>)
                     (new_ball 20 0 SOLID 1 0) = Inr (b1', b2')
         \<and> change_x b1' = 0.5 \<and> change_x b2' = 4.5
         \<and> kinetic_energy b1' b2'
            \<le> kinetic_energy ((new_ball 0 0 CUE 0 0)\<lparr>change_x := 5\<rparr>) (new_ball 20 0 SOLID 1 0))"
  using resolve_never_gains_energy
    [of "(new_ball 0 0 CUE 0 0)\<lparr>change_x := 5\<rparr>" "new_ball 20 0 SOLID 1 0"]
  by (simp add: new_ball_def resolve_ball_collision_def Let_def BALL_RADIUS_def sqrt_400)

text \<open>
  C4. If the centers are at a distance \<open>d\<close> with \<open>0 < d \<le> 2*BALL_RADIUS\<close> before the
  call, the call returns; each ball has been moved along the normal (the unit vector from
  the first center to the second) by half the overlap \<open>2*BALL_RADIUS - d\<close>, the first
  against it and the second with it; and the centers are then exactly \<open>2*BALL_RADIUS\<close>
  apart, hence at least \<open>2*BALL_RADIUS - eps\<close> for every \<open>eps \<ge> 0\<close>.
\<close>

theorem resolve_separates_centers:
  assumes pos: "0 < center_distance ball1 ball2"
    and near: "center_distance ball1 ball2 \<le> 2 * BALL_RADIUS"
    and masses: "mass ball1 + mass ball2 \<noteq> 0"
    and eps: "0 \<le> eps"
  shows "\<exists>b1' b2'. resolve_ball_collision ball1 ball2 = Inr (b1', b2')
     \<and> center_x b1' = center_x ball1
          - (center_x ball2 - center_x ball1) / center_distance ball1 ball2
            * ((2 * BALL_RADIUS - center_distance ball1 ball2) / 2)
     \<and> center_y b1' = center_y ball1
          - (center_y ball2 - center_y ball1) / center_distance ball1 ball2
            * ((2 * BALL_RADIUS - center_distance ball1 ball2) / 2)
     \<and> center_x b2' = center_x ball2
          + (center_x ball2 - center_x ball1) / center_distance ball1 ball2
            * ((2 * BALL_RADIUS - center_distance ball1 ball2) / 2)
     \<and> center_y b2' = center_y ball2
          + (center_y ball2 - center_y ball1) / center_distance ball1 ball2
            * ((2 * BALL_RADIUS - center_distance ball1 ball2) / 2)
     \<and> center_distance b1' b2' = 2 * BALL_RADIUS
     \<and> 2 * BALL_RADIUS - eps \<le> center_distance b1' b2'"
proof -
  have nz: "center_distance ball1 ball2 \<noteq> 0" using pos by simp
  have le: "center_distance ball1 ball2 \<le> BALL_RADIUS * 2" using near by simp
  from resolve_positions [OF nz le masses] obtain b1' b2' where
    r: "resolve_ball_collision ball1 ball2 = Inr (b1', b2')"
    and x1: "center_x b1' = center_x ball1
          - (center_x ball2 - center_x ball1) / center_distance ball1 ball2
            * ((BALL_RADIUS * 2 - center_distance ball1 ball2) * 0.5)"
    and y1: "center_y b1' = center_y ball1
          - (center_y ball2 - center_y ball1) / center_distance ball1 ball2
            * ((BALL_RADIUS * 2 - center_distance ball1 ball2) * 0.5)"
    and x2: "center_x b2' = center_x ball2
          + (center_x ball2 - center_x ball1) / center_distance ball1 ball2
            * ((BALL_RADIUS * 2 - center_distance ball1 ball2) * 0.5)"
    and y2: "center_y b2' = center_y ball2
          + (center_y ball2 - center_y ball1) / center_distance ball1 ball2
            * ((BALL_RADIUS * 2 - center_distance ball1 ball2) * 0.5)"
    by blast
  have d: "center_distance ball1 ball2
           = sqrt ((center_x ball2 - center_x ball1) * (center_x ball2 - center_x ball1)
                 + (center_y ball2 - center_y ball1) * (center_y ball2 - center_y ball1))"
    by (simp add: center_distance_def Let_def)
  have R: "0 \<le> BALL_RADIUS" by (simp add: BALL_RADIUS_def)
  have dist: "center_distance b1' b2' = BALL_RADIUS * 2"
    unfolding center_distance_def [of b1' b2'] Let_def x1 y1 x2 y2
    by (rule pushed_apart [OF d nz R refl])
  have half: "(BALL_RADIUS * 2 - center_distance ball1 ball2) * 0.5
              = (2 * BALL_RADIUS - center_distance ball1 ball2) / 2" by simp
  have far: "2 * BALL_RADIUS - eps \<le> center_distance b1' b2'" using dist eps by simp
  have dist2: "center_distance b1' b2' = 2 * BALL_RADIUS" using dist by simp
  show ?thesis
    using r x1 [unfolded half] y1 [unfolded half] x2 [unfolded half] y2 [unfolded half]
      dist2 far
    by blast
qed

theorem resolve_separates_centers_witness:
  "0 < center_distance (new_ball 0 0 CUE 0 0) (new_ball 20 0 SOLID 1 0)
   \<and> center_distance (new_ball 0 0 CUE 0 0) (new_ball 20 0 SOLID 1 0) \<le> 2 * BALL_RADIUS
   \<and> mass (new_ball 0 0 CUE 0 0) + mass (new_ball 20 0 SOLID 1 0) \<noteq> 0
   \<and> (0::real) \<le> 1 / 1000
   \<and> (\<exists>b1' b2'. resolve_ball_collision (new_ball 0 0 CUE 0 0) (new_ball 20 0 SOLID 1 0)
                     = Inr (b1', b2')
         \<and> center_x b1' = - 4 \<and> center_y b1' = 0 \<and> center_x b2' = 24 \<and> center_y b2' = 0
         \<and> center_distance b1' b2' = 28
         \<and> 2 * BALL_RADIUS - 1 / 1000 \<le> center_distance b1' b2')"
  using resolve_separates_centers
    [of "new_ball 0 0 CUE 0 0" "new_ball 20 0 SOLID 1 0" "1 / 1000"]
  by (simp add: new_ball_def center_distance_def Let_def BALL_RADIUS_def sqrt_400)

text \<open>
  C5. The call returns for every pair whose masses do not sum to zero, and the total linear
  momentum \<open>m1*v1 + m2*v2\<close> of the pair is the same vector before and after it.
\<close>

theorem resolve_conserves_momentum:
  assumes masses: "mass ball1 + mass ball2 \<noteq> 0"
  shows "\<exists>b1' b2'. resolve_ball_collision ball1 ball2 = Inr (b1', b2')
           \<and> momentum_x b1' b2' = momentum_x ball1 ball2
           \<and> momentum_y b1' b2' = momentum_y ball1 ball2"
proof -
  define dx where "dx = center_x ball2 - center_x ball1"
  define dy where "dy = center_y ball2 - center_y ball1"
  define d where "d = sqrt (dx * dx + dy * dy)"
  define nx where "nx = dx / d"
  define ny where "ny = dy / d"
  define s where "s = (change_x ball2 - change_x ball1) * nx + (change_y ball2 - change_y ball1) * ny"
  define j where "j = (2 * s / (mass ball1 + mass ball2)) * 0.9"
  consider (skip) "d = 0 \<or> d > BALL_RADIUS * 2"
    | (separating) "d \<noteq> 0" "d \<le> BALL_RADIUS * 2" "s > 0"
    | (hit) "d \<noteq> 0" "d \<le> BALL_RADIUS * 2" "s \<le> 0"
    by fastforce
  then show ?thesis
  proof cases
    case skip
    then have "resolve_ball_collision ball1 ball2 = Inr (ball1, ball2)"
      unfolding d_def dx_def dy_def by (rule resolve_far_or_coincident)
    then show ?thesis by simp
  next
    case separating
    from resolve_separating [OF dx_def dy_def d_def nx_def ny_def s_def separating]
    show ?thesis by (simp add: momentum_x_def momentum_y_def)
  next
    case hit
    from resolve_hit [OF dx_def dy_def d_def nx_def ny_def s_def j_def hit masses]
    obtain b1' b2' where r: "resolve_ball_collision ball1 ball2 = Inr (b1', b2')"
      and v: "change_x b1' = change_x ball1 + j * mass ball2 * nx"
             "change_y b1' = change_y ball1 + j * mass ball2 * ny"
             "change_x b2' = change_x ball2 - j * mass ball1 * nx"
             "change_y b2' = change_y ball2 - j * mass ball1 * ny"
      and m: "mass b1' = mass ball1" "mass b2' = mass ball2"
      by blast
    have "momentum_x b1' b2' = momentum_x ball1 ball2"
      unfolding momentum_x_def v m by (rule impulse_momentum)
    moreover have "momentum_y b1' b2' = momentum_y ball1 ball2"
      unfolding momentum_y_def v m by (rule impulse_momentum)
    ultimately show ?thesis using r by blast
  qed
qed

theorem resolve_conserves_momentum_witness:
  "mass ((new_ball 0 0 CUE 0 0)\<lparr>change_x := 5\<rparr>) + mass (new_ball 20 0 SOLID 1 0) \<noteq> 0
   \<and> (\<exists>b1' b2'. resolve_ball_collision ((new_ball 0 0 CUE 0 0)\<lparr>change_x := 5\<rparr>)
                     (new_ball 20 0 SOLID 1 0) = Inr (b1', b2')
         \<and> momentum_x b1' b2' = 5 \<and> momentum_y b1' b2' = 0)"
  using resolve_conserves_momentum
    [of "(new_ball 0 0 CUE 0 0)\<lparr>change_x := 5\<rparr>" "new_ball 20 0 SOLID 1 0"]
  by (simp add: new_ball_def momentum_x_def momentum_y_def)

text \<open>
  C9. When the centers coincide (distance exactly 0) or are more than \<open>2*BALL_RADIUS\<close>
  apart, the call returns normally, without a division by zero, and both balls are exactly
  as they were.
\<close>

theorem resolve_skips_degenerate_and_distant:
  "center_distance ball1 ball2 = 0 \<or> center_distance ball1 ball2 > 2 * BALL_RADIUS
   \<Longrightarrow> resolve_ball_collision ball1 ball2 = Inr (ball1, ball2)"
  by (auto simp: resolve_ball_collision_def center_distance_def Let_def)

theorem resolve_skips_degenerate_and_distant_witness:
  "center_distance (new_ball 300 350 CUE 0 0) (new_ball 300 350 SOLID 1 0) = 0
   \<and> resolve_ball_collision (new_ball 300 350 CUE 0 0) (new_ball 300 350 SOLID 1 0)
       = Inr (new_ball 300 350 CUE 0 0, new_ball 300 350 SOLID 1 0)"
  using resolve_skips_degenerate_and_distant
    [of "new_ball 300 350 CUE 0 0" "new_ball 300 350 SOLID 1 0"]
  by (simp add: new_ball_def center_distance_def Let_def)

section \<open>The blocks of Ball.update, field by field\<close>

lemma speed_advance: "ball_speed (advance b) = ball_speed b"
  by (simp add: ball_speed_def advance_def)

lemma speed_nonneg: "0 \<le> ball_speed b"
  by (simp add: ball_speed_def)

lemma speed_axis: "change_y b = 0 \<Longrightarrow> ball_speed b = \<bar>change_x b\<bar>"
  by (simp add: ball_speed_def)

lemma speed_zero_iff: "ball_speed b = 0 \<longleftrightarrow> change_x b = 0 \<and> change_y b = 0"
  by (simp add: ball_speed_def add_nonneg_eq_0_iff)

lemma component_le_speed:
  "\<bar>change_x b\<bar> \<le> ball_speed b" "\<bar>change_y b\<bar> \<le> ball_speed b"
  by (simp_all add: ball_speed_def real_le_rsqrt)

lemma speed_le_components: "ball_speed b \<le> \<bar>change_x b\<bar> + \<bar>change_y b\<bar>"
  unfolding ball_speed_def by (rule sqrt_sum_squares_le_sum_abs)

lemma update_trail_fields:
  "center_x (update_trail s t b) = center_x b"
  "center_y (update_trail s t b) = center_y b"
  "change_x (update_trail s t b) = change_x b"
  "change_y (update_trail s t b) = change_y b"
  "angular_velocity (update_trail s t b) = angular_velocity b"
  "rotation (update_trail s t b) = rotation b"
  by (simp_all add: update_trail_def Let_def)

lemma update_highlight_fields:
  "center_x (update_highlight dt b) = center_x b"
  "center_y (update_highlight dt b) = center_y b"
  "change_x (update_highlight dt b) = change_x b"
  "change_y (update_highlight dt b) = change_y b"
  "angular_velocity (update_highlight dt b) = angular_velocity b"
  "rotation (update_highlight dt b) = rotation b"
  by (simp_all add: update_highlight_def Let_def)

lemma snap_velocity_fields:
  "center_x (snap_velocity b) = center_x b"
  "center_y (snap_velocity b) = center_y b"
  "angular_velocity (snap_velocity b) = angular_velocity b"
  "rotation (snap_velocity b) = rotation b"
  "change_x (snap_velocity b) = (if \<bar>change_x b\<bar> < 0.08 then 0 else change_x b)"
  "change_y (snap_velocity b) = (if \<bar>change_y b\<bar> < 0.08 then 0 else change_y b)"
  by (simp_all add: snap_velocity_def Let_def)

lemma friction_and_spin_fields:
  "center_x (friction_and_spin s dt b) = center_x b"
  "center_y (friction_and_spin s dt b) = center_y b"
  "angular_velocity (friction_and_spin s dt b) = angular_velocity b * ROTATIONAL_FRICTION"
  "rotation (friction_and_spin s dt b) = rotation b + angular_velocity b * dt * 30"
  by (simp_all add: friction_and_spin_def Let_def)

lemma friction_and_spin_velocity:
  "change_x (friction_and_spin s dt b) =
     change_x b * (FRICTION - s * 0.0005)
     + (if \<bar>angular_velocity b * ROTATIONAL_FRICTION\<bar> > 0.1
        then angular_velocity b * ROTATIONAL_FRICTION * SPIN_EFFECT * dt else 0)"
  "change_y (friction_and_spin s dt b) =
     change_y b * (FRICTION - s * 0.0005)
     - (if \<bar>angular_velocity b * ROTATIONAL_FRICTION\<bar> > 0.1
        then angular_velocity b * ROTATIONAL_FRICTION * SPIN_EFFECT * dt else 0)"
  by (simp_all add: friction_and_spin_def Let_def)

lemma advance_fields:
  "center_x (advance b) = center_x b + change_x b"
  "center_y (advance b) = center_y b + change_y b"
  "change_x (advance b) = change_x b"
  "change_y (advance b) = change_y b"
  "angular_velocity (advance b) = angular_velocity b"
  "rotation (advance b) = rotation b"
  by (simp_all add: advance_def)

lemmas phase_fields = update_trail_fields update_highlight_fields snap_velocity_fields
  friction_and_spin_fields friction_and_spin_velocity advance_fields speed_advance

lemma update_position:
  "center_x (update b dt t) = center_x b + change_x b"
  "center_y (update b dt t) = center_y b + change_y b"
  by (simp_all add: update_def Let_def phase_fields)

lemma update_rotation:
  "rotation (update b dt t) =
     (if ball_speed b > 0 then rotation b + angular_velocity b * dt * 30 else rotation b)"
  by (simp add: update_def Let_def phase_fields)

lemma update_spin:
  "angular_velocity (update b dt t) =
     (if ball_speed b > 0 then angular_velocity b * ROTATIONAL_FRICTION else angular_velocity b)"
  by (simp add: update_def Let_def phase_fields)

lemma update_velocity_at_rest:
  assumes "ball_speed b = 0"
  shows "change_x (update b dt t) = 0" "change_y (update b dt t) = 0"
  using assms speed_zero_iff [of b]
  by (simp_all add: update_def Let_def phase_fields)

lemma update_velocity_no_drift:
  assumes "\<bar>angular_velocity b * ROTATIONAL_FRICTION\<bar> \<le> 0.1"
  shows "change_x (update b dt t) =
           (if \<bar>change_x b * (FRICTION - ball_speed b * 0.0005)\<bar> < 0.08 then 0
            else change_x b * (FRICTION - ball_speed b * 0.0005))"
    and "change_y (update b dt t) =
           (if \<bar>change_y b * (FRICTION - ball_speed b * 0.0005)\<bar> < 0.08 then 0
            else change_y b * (FRICTION - ball_speed b * 0.0005))"
proof -
  show "change_x (update b dt t) =
           (if \<bar>change_x b * (FRICTION - ball_speed b * 0.0005)\<bar> < 0.08 then 0
            else change_x b * (FRICTION - ball_speed b * 0.0005))"
  proof (cases "ball_speed b > 0")
    case True
    then show ?thesis using assms by (simp add: update_def Let_def phase_fields)
  next
    case False
    then have z: "ball_speed b = 0" using speed_nonneg [of b] by simp
    then have "change_x b = 0" by (simp add: speed_zero_iff)
    then show ?thesis using update_velocity_at_rest(1) [OF z] by simp
  qed
  show "change_y (update b dt t) =
           (if \<bar>change_y b * (FRICTION - ball_speed b * 0.0005)\<bar> < 0.08 then 0
            else change_y b * (FRICTION - ball_speed b * 0.0005))"
  proof (cases "ball_speed b > 0")
    case True
    then show ?thesis using assms by (simp add: update_def Let_def phase_fields)
  next
    case False
    then have z: "ball_speed b = 0" using speed_nonneg [of b] by simp
    then have "change_y b = 0" by (simp add: speed_zero_iff)
    then show ?thesis using update_velocity_at_rest(2) [OF z] by simp
  qed
qed

lemma update_velocity_snapped:
  "change_x (update b dt t) = 0 \<or> 0.08 \<le> \<bar>change_x (update b dt t)\<bar>"
  "change_y (update b dt t) = 0 \<or> 0.08 \<le> \<bar>change_y (update b dt t)\<bar>"
  by (simp_all add: update_def Let_def update_trail_fields update_highlight_fields
        snap_velocity_fields)

lemma damped_below_threshold:
  fixes v f :: real
  assumes "\<bar>v\<bar> < 0.08" "0 \<le> f" "f \<le> 1"
  shows "\<bar>v * f\<bar> < 0.08"
proof -
  have "\<bar>v * f\<bar> = \<bar>v\<bar> * f" using assms(2) by (simp add: abs_mult)
  also have "\<dots> \<le> \<bar>v\<bar> * 1" using assms(3) by (intro mult_left_mono) simp_all
  finally show ?thesis using assms(1) by simp
qed

lemma small_components_stop:
  assumes x: "\<bar>change_x b\<bar> < 0.08" and y: "\<bar>change_y b\<bar> < 0.08"
    and nd: "\<bar>angular_velocity b * ROTATIONAL_FRICTION\<bar> \<le> 0.1"
  shows "change_x (update b dt t) = 0 \<and> change_y (update b dt t) = 0"
proof -
  have "ball_speed b < 0.16" using speed_le_components [of b] x y by simp
  then have f0: "0 \<le> FRICTION - ball_speed b * 0.0005" by (simp add: FRICTION_def)
  have f1: "FRICTION - ball_speed b * 0.0005 \<le> 1"
    using speed_nonneg [of b] by (simp add: FRICTION_def)
  show ?thesis
    using update_velocity_no_drift [OF nd, of dt t]
      damped_below_threshold [OF x f0 f1] damped_below_threshold [OF y f0 f1]
    by simp
qed

lemma update_velocity_general:
  "change_x (update b dt t) =
     (if \<bar>change_x b * (FRICTION - ball_speed b * 0.0005) + spin_drift b dt\<bar> < 0.08 then 0
      else change_x b * (FRICTION - ball_speed b * 0.0005) + spin_drift b dt)"
  "change_y (update b dt t) =
     (if \<bar>change_y b * (FRICTION - ball_speed b * 0.0005) - spin_drift b dt\<bar> < 0.08 then 0
      else change_y b * (FRICTION - ball_speed b * 0.0005) - spin_drift b dt)"
proof -
  show "change_x (update b dt t) =
     (if \<bar>change_x b * (FRICTION - ball_speed b * 0.0005) + spin_drift b dt\<bar> < 0.08 then 0
      else change_x b * (FRICTION - ball_speed b * 0.0005) + spin_drift b dt)"
  proof (cases "ball_speed b > 0")
    case True
    then show ?thesis by (simp add: update_def Let_def phase_fields spin_drift_def)
  next
    case False
    then have z: "ball_speed b = 0" using speed_nonneg [of b] by simp
    then have "change_x b = 0" by (simp add: speed_zero_iff)
    then show ?thesis using z update_velocity_at_rest(1) [OF z] by (simp add: spin_drift_def)
  qed
  show "change_y (update b dt t) =
     (if \<bar>change_y b * (FRICTION - ball_speed b * 0.0005) - spin_drift b dt\<bar> < 0.08 then 0
      else change_y b * (FRICTION - ball_speed b * 0.0005) - spin_drift b dt)"
  proof (cases "ball_speed b > 0")
    case True
    then show ?thesis by (simp add: update_def Let_def phase_fields spin_drift_def)
  next
    case False
    then have z: "ball_speed b = 0" using speed_nonneg [of b] by simp
    then have "change_y b = 0" by (simp add: speed_zero_iff)
    then show ?thesis using z update_velocity_at_rest(2) [OF z] by (simp add: spin_drift_def)
  qed
qed

lemma scaled_keeps_sign:
  fixes v f :: real
  assumes "0 \<le> f"
  shows "0 \<le> v * (if \<bar>v * f\<bar> < 0.08 then 0 else v * f)"
proof -
  have "0 \<le> v * v" by simp
  then have "0 \<le> (v * v) * f" using assms by (rule mult_nonneg_nonneg)
  then have "0 \<le> v * (v * f)" by (simp only: mult.assoc)
  then show ?thesis by simp
qed

section \<open>Properties of Ball.update\<close>

text \<open>
  C2, as stated, fails: with \<open>delta_time = 0\<close> a ball moving at \<open>(1, 0)\<close> from
  \<open>x = 100\<close> is at \<open>x = 101\<close> after the call, with its velocity damped to 0.9845. The
  position step and the friction do not read \<open>delta_time\<close>.
\<close>

theorem zero_dt_update_moves_ball:
  "center_x (update ((new_ball 100 100 CUE 0 0)\<lparr>change_x := 1\<rparr>) 0 0) = 101
   \<and> center_x ((new_ball 100 100 CUE 0 0)\<lparr>change_x := 1\<rparr>) = 100
   \<and> change_x (update ((new_ball 100 100 CUE 0 0)\<lparr>change_x := 1\<rparr>) 0 0) = 0.9845"
  by (simp add: update_position update_velocity_no_drift speed_axis new_ball_def
        FRICTION_def ROTATIONAL_FRICTION_def)

text \<open>
  C2, amended. With \<open>delta_time = 0\<close> the call still advances the position by one tick of
  the velocity, and it leaves the rotation angle alone; it leaves position, velocity and
  angular velocity unchanged when the ball is at rest.
\<close>

theorem update_zero_dt:
  "center_x (update b 0 t) = center_x b + change_x b
   \<and> center_y (update b 0 t) = center_y b + change_y b
   \<and> rotation (update b 0 t) = rotation b
   \<and> (change_x b = 0 \<and> change_y b = 0 \<longrightarrow>
        center_x (update b 0 t) = center_x b \<and> center_y (update b 0 t) = center_y b
        \<and> change_x (update b 0 t) = change_x b \<and> change_y (update b 0 t) = change_y b
        \<and> angular_velocity (update b 0 t) = angular_velocity b)"
proof -
  have rest: "angular_velocity (update b 0 t) = angular_velocity b
              \<and> change_x (update b 0 t) = 0 \<and> change_y (update b 0 t) = 0"
    if "change_x b = 0" "change_y b = 0"
  proof -
    have z: "ball_speed b = 0" using that by (simp add: speed_zero_iff)
    show ?thesis using z update_velocity_at_rest [OF z] by (simp add: update_spin)
  qed
  show ?thesis using rest by (simp add: update_position update_rotation)
qed

theorem update_zero_dt_witness:
  "change_x ((new_ball 300 350 CUE 0 5)\<lparr>angular_velocity := 2\<rparr>) = 0
   \<and> change_y ((new_ball 300 350 CUE 0 5)\<lparr>angular_velocity := 2\<rparr>) = 0
   \<and> center_x (update ((new_ball 300 350 CUE 0 5)\<lparr>angular_velocity := 2\<rparr>) 0 7) = 300
   \<and> center_y (update ((new_ball 300 350 CUE 0 5)\<lparr>angular_velocity := 2\<rparr>) 0 7) = 350
   \<and> change_x (update ((new_ball 300 350 CUE 0 5)\<lparr>angular_velocity := 2\<rparr>) 0 7) = 0
   \<and> change_y (update ((new_ball 300 350 CUE 0 5)\<lparr>angular_velocity := 2\<rparr>) 0 7) = 0
   \<and> angular_velocity (update ((new_ball 300 350 CUE 0 5)\<lparr>angular_velocity := 2\<rparr>) 0 7) = 2"
  using update_zero_dt [of "(new_ball 300 350 CUE 0 5)\<lparr>angular_velocity := 2\<rparr>" 7]
  by (simp add: new_ball_def)

text \<open>
  C3, as stated, fails: the friction factor \<open>FRICTION - speed * 0.0005\<close> is not clamped.
  A ball without spin moving at \<open>(2000, 0)\<close> gets the factor \<open>-0.015\<close> and leaves the
  call with velocity \<open>(-30, 0)\<close>.
\<close>

theorem friction_reverses_fast_ball:
  "change_x ((new_ball 300 350 CUE 0 0)\<lparr>change_x := 2000\<rparr>) = 2000
   \<and> change_x (update ((new_ball 300 350 CUE 0 0)\<lparr>change_x := 2000\<rparr>) (1 / 60) 0) = - 30"
  by (simp add: update_velocity_no_drift speed_axis new_ball_def
        FRICTION_def ROTATIONAL_FRICTION_def)

text \<open>
  C3, amended. The friction factor is not clamped, but for every pre-step speed of at most
  1970 (= \<open>FRICTION / 0.0005\<close>) it is nonnegative, whatever the spin. Each velocity
  component after the call is the component times that factor, plus or minus the spin
  drift, snapped to 0 below 0.08: friction scales the velocity by a nonnegative number, and
  when no spin drift is added no component changes sign.
\<close>

theorem friction_keeps_direction:
  assumes slow: "ball_speed b \<le> 1970"
  shows "0 \<le> FRICTION - ball_speed b * 0.0005
     \<and> (let vx = change_x b * (FRICTION - ball_speed b * 0.0005) + spin_drift b dt
         in change_x (update b dt t) = (if \<bar>vx\<bar> < 0.08 then 0 else vx))
     \<and> (let vy = change_y b * (FRICTION - ball_speed b * 0.0005) - spin_drift b dt
         in change_y (update b dt t) = (if \<bar>vy\<bar> < 0.08 then 0 else vy))
     \<and> (spin_drift b dt = 0 \<longrightarrow>
           0 \<le> change_x b * change_x (update b dt t)
           \<and> 0 \<le> change_y b * change_y (update b dt t))"
proof (intro conjI impI)
  show f: "0 \<le> FRICTION - ball_speed b * 0.0005"
    using slow by (simp add: FRICTION_def)
  show "let vx = change_x b * (FRICTION - ball_speed b * 0.0005) + spin_drift b dt
        in change_x (update b dt t) = (if \<bar>vx\<bar> < 0.08 then 0 else vx)"
    unfolding Let_def by (rule update_velocity_general)
  show "let vy = change_y b * (FRICTION - ball_speed b * 0.0005) - spin_drift b dt
        in change_y (update b dt t) = (if \<bar>vy\<bar> < 0.08 then 0 else vy)"
    unfolding Let_def by (rule update_velocity_general)
  assume nd: "spin_drift b dt = 0"
  have x: "change_x (update b dt t) =
     (if \<bar>change_x b * (FRICTION - ball_speed b * 0.0005)\<bar> < 0.08 then 0
      else change_x b * (FRICTION - ball_speed b * 0.0005))"
    using update_velocity_general(1) [of b dt t] by (simp only: nd add_0_right)
  have y: "change_y (update b dt t) =
     (if \<bar>change_y b * (FRICTION - ball_speed b * 0.0005)\<bar> < 0.08 then 0
      else change_y b * (FRICTION - ball_speed b * 0.0005))"
    using update_velocity_general(2) [of b dt t] by (simp only: nd diff_zero)
  show "0 \<le> change_x b * change_x (update b dt t)"
    unfolding x by (rule scaled_keeps_sign [OF f])
  show "0 \<le> change_y b * change_y (update b dt t)"
    unfolding y by (rule scaled_keeps_sign [OF f])
qed

theorem friction_keeps_direction_witness:
  "ball_speed ((new_ball 300 350 CUE 0 0)\<lparr>change_x := - 10, angular_velocity := 2\<rparr>) \<le> 1970
   \<and> spin_drift ((new_ball 300 350 CUE 0 0)\<lparr>change_x := - 10, angular_velocity := 2\<rparr>) (1 / 60)
       = 0.0048
   \<and> change_x (update ((new_ball 300 350 CUE 0 0)\<lparr>change_x := - 10, angular_velocity := 2\<rparr>)
                 (1 / 60) 0) = - 9.7952
   \<and> change_y (update ((new_ball 300 350 CUE 0 0)\<lparr>change_x := - 10, angular_velocity := 2\<rparr>)
                 (1 / 60) 0) = 0
   \<and> ball_speed ((new_ball 300 350 CUE 0 0)\<lparr>change_x := - 10\<rparr>) \<le> 1970
   \<and> spin_drift ((new_ball 300 350 CUE 0 0)\<lparr>change_x := - 10\<rparr>) (1 / 60) = 0
   \<and> change_x (update ((new_ball 300 350 CUE 0 0)\<lparr>change_x := - 10\<rparr>) (1 / 60) 0) = - 9.8
   \<and> 0 \<le> change_x ((new_ball 300 350 CUE 0 0)\<lparr>change_x := - 10\<rparr>)
            * change_x (update ((new_ball 300 350 CUE 0 0)\<lparr>change_x := - 10\<rparr>) (1 / 60) 0)"
  using friction_keeps_direction
      [of "(new_ball 300 350 CUE 0 0)\<lparr>change_x := - 10, angular_velocity := 2\<rparr>" "1 / 60" 0]
    friction_keeps_direction
      [of "(new_ball 300 350 CUE 0 0)\<lparr>change_x := - 10\<rparr>" "1 / 60" 0]
  by (simp add: speed_axis spin_drift_def new_ball_def Let_def
        FRICTION_def ROTATIONAL_FRICTION_def SPIN_EFFECT_def)

text \<open>
  C7, as stated, fails: the spin drift is added after the friction and before the snap.
  A ball with speed 0.05 and angular velocity 100 leaves a call with \<open>delta_time = 1/60\<close>
  with \<open>change_x = 0.28924875\<close>.
\<close>

theorem slow_spinning_ball_keeps_moving:
  "ball_speed ((new_ball 300 350 CUE 0 0)\<lparr>change_x := 0.05, angular_velocity := 100\<rparr>) < 0.08
   \<and> change_x (update ((new_ball 300 350 CUE 0 0)\<lparr>change_x := 0.05, angular_velocity := 100\<rparr>)
                 (1 / 60) 0) = 0.28924875"
  by (simp add: update_def Let_def phase_fields speed_axis new_ball_def
        FRICTION_def ROTATIONAL_FRICTION_def SPIN_EFFECT_def)

text \<open>
  C7, amended. If the pre-step speed is below 0.08 and no spin drift is added (the angular
  velocity after rotational friction is at most 0.1 in magnitude), both velocity components
  are exactly 0 after the call.
\<close>

theorem slow_ball_stops:
  assumes slow: "ball_speed b < 0.08"
    and nd: "\<bar>angular_velocity b * ROTATIONAL_FRICTION\<bar> \<le> 0.1"
  shows "change_x (update b dt t) = 0 \<and> change_y (update b dt t) = 0"
proof -
  have "\<bar>change_x b\<bar> < 0.08" "\<bar>change_y b\<bar> < 0.08"
    using component_le_speed [of b] slow by simp_all
  then show ?thesis using nd by (rule small_components_stop)
qed

theorem slow_ball_stops_witness:
  "ball_speed ((new_ball 300 350 CUE 0 0)\<lparr>change_x := 0.07, angular_velocity := 0.1\<rparr>) < 0.08
   \<and> \<bar>angular_velocity ((new_ball 300 350 CUE 0 0)\<lparr>change_x := 0.07, angular_velocity := 0.1\<rparr>)
        * ROTATIONAL_FRICTION\<bar> \<le> 0.1
   \<and> change_x (update ((new_ball 300 350 CUE 0 0)\<lparr>change_x := 0.07, angular_velocity := 0.1\<rparr>)
                 (1 / 60) 0) = 0
   \<and> change_y (update ((new_ball 300 350 CUE 0 0)\<lparr>change_x := 0.07, angular_velocity := 0.1\<rparr>)
                 (1 / 60) 0) = 0"
  using slow_ball_stops
    [of "(new_ball 300 350 CUE 0 0)\<lparr>change_x := 0.07, angular_velocity := 0.1\<rparr>" "1 / 60" 0]
  by (simp add: speed_axis new_ball_def ROTATIONAL_FRICTION_def)

text \<open>
  C10, as stated, fails in its second half: a ball with components \<open>(0.05, 0)\<close>, both
  below 0.08, and angular velocity 1 leaves a call with \<open>delta_time = 1\<close> with velocity
  \<open>(0.19324875, -0.144)\<close>, so it is not stopped.
\<close>

theorem small_components_with_spin_keep_moving:
  "\<bar>change_x ((new_ball 300 350 CUE 0 0)\<lparr>change_x := 0.05, angular_velocity := 1\<rparr>)\<bar> < 0.08
   \<and> \<bar>change_y ((new_ball 300 350 CUE 0 0)\<lparr>change_x := 0.05, angular_velocity := 1\<rparr>)\<bar> < 0.08
   \<and> change_x (update ((new_ball 300 350 CUE 0 0)\<lparr>change_x := 0.05, angular_velocity := 1\<rparr>) 1 0)
       = 0.19324875
   \<and> change_y (update ((new_ball 300 350 CUE 0 0)\<lparr>change_x := 0.05, angular_velocity := 1\<rparr>) 1 0)
       = - 0.144"
  by (simp add: update_def Let_def phase_fields speed_axis new_ball_def
        FRICTION_def ROTATIONAL_FRICTION_def SPIN_EFFECT_def)

text \<open>
  C10, amended. After every call each velocity component is exactly 0 or at least 0.08 in
  magnitude. A ball whose two components are each below 0.08 in magnitude is stopped
  completely by one call when no spin drift is added (the angular velocity after rotational
  friction is at most 0.1 in magnitude).
\<close>

theorem snap_is_componentwise:
  "(change_x (update b dt t) = 0 \<or> 0.08 \<le> \<bar>change_x (update b dt t)\<bar>)
   \<and> (change_y (update b dt t) = 0 \<or> 0.08 \<le> \<bar>change_y (update b dt t)\<bar>)
   \<and> (\<bar>change_x b\<bar> < 0.08 \<and> \<bar>change_y b\<bar> < 0.08
        \<and> \<bar>angular_velocity b * ROTATIONAL_FRICTION\<bar> \<le> 0.1
        \<longrightarrow> change_x (update b dt t) = 0 \<and> change_y (update b dt t) = 0)"
  using update_velocity_snapped [of b dt t] small_components_stop [of b dt t] by blast

theorem snap_is_componentwise_witness:
  "\<bar>change_x ((new_ball 300 350 CUE 0 0)\<lparr>change_x := 0.07, change_y := - 0.07\<rparr>)\<bar> < 0.08
   \<and> \<bar>change_y ((new_ball 300 350 CUE 0 0)\<lparr>change_x := 0.07, change_y := - 0.07\<rparr>)\<bar> < 0.08
   \<and> \<bar>angular_velocity ((new_ball 300 350 CUE 0 0)\<lparr>change_x := 0.07, change_y := - 0.07\<rparr>)
        * ROTATIONAL_FRICTION\<bar> \<le> 0.1
   \<and> change_x (update ((new_ball 300 350 CUE 0 0)\<lparr>change_x := 0.07, change_y := - 0.07\<rparr>)
                 (1 / 60) 0) = 0
   \<and> change_y (update ((new_ball 300 350 CUE 0 0)\<lparr>change_x := 0.07, change_y := - 0.07\<rparr>)
                 (1 / 60) 0) = 0"
  using snap_is_componentwise
    [of "(new_ball 300 350 CUE 0 0)\<lparr>change_x := 0.07, change_y := - 0.07\<rparr>" "1 / 60" 0]
  by (simp add: new_ball_def)

section \<open>Properties of the wall collision\<close>

lemmas wall_defs = check_wall_collision_def inside_bounds_def
  ball_left_def ball_right_def ball_bottom_def ball_top_def
  set_left_def set_right_def set_bottom_def set_top_def
  left_bound_def right_bound_def bottom_bound_def top_bound_def
  SCREEN_WIDTH_def SCREEN_HEIGHT_def BALL_RADIUS_def WALL_BOUNCE_def

text \<open>
  C6, as stated, fails twice. A ball at \<open>(70, 70)\<close> crosses the left and the bottom wall;
  the call handles the left wall only and returns \<open>True\<close> with the ball still across the
  bottom wall. A ball across the left wall that already moves away from it, with
  \<open>change_x = 1\<close>, keeps the sign of that component: it becomes 0.78.
\<close>

theorem wall_collision_corner_and_inward:
  "fst (check_wall_collision (new_ball 70 70 CUE 0 0))
   \<and> \<not> inside_bounds (snd (check_wall_collision (new_ball 70 70 CUE 0 0)))
   \<and> ball_left ((new_ball 70 350 CUE 0 0)\<lparr>change_x := 1\<rparr>) < left_bound
   \<and> change_x (snd (check_wall_collision ((new_ball 70 350 CUE 0 0)\<lparr>change_x := 1\<rparr>))) = 0.78"
  by (simp add: wall_defs new_ball_def)

text \<open>
  C6, amended. If no wall is crossed the call returns \<open>False\<close> and leaves the ball
  unchanged. If a wall is crossed it returns \<open>True\<close>, multiplies the angular velocity by
  \<open>-0.8\<close> and handles the first crossed wall in the order left, right, bottom, top: that
  edge of the ball is put on the wall, the velocity component normal to it becomes
  \<open>|v| * WALL_BOUNCE\<close> pointing into the table, and the other coordinate and component stay
  as they were. The ball is fully inside the rectangle afterwards whenever it was within
  the bounds on at least one axis before the call.
\<close>

theorem wall_collision_first_wall:
  "(inside_bounds b \<longrightarrow> check_wall_collision b = (False, b))
   \<and> (\<not> inside_bounds b \<longrightarrow>
         fst (check_wall_collision b)
         \<and> angular_velocity (snd (check_wall_collision b)) = angular_velocity b * (- 0.8))
   \<and> (ball_left b < left_bound \<longrightarrow>
         ball_left (snd (check_wall_collision b)) = left_bound
         \<and> change_x (snd (check_wall_collision b)) = \<bar>change_x b\<bar> * WALL_BOUNCE
         \<and> center_y (snd (check_wall_collision b)) = center_y b
         \<and> change_y (snd (check_wall_collision b)) = change_y b)
   \<and> (\<not> ball_left b < left_bound \<and> ball_right b > right_bound \<longrightarrow>
         ball_right (snd (check_wall_collision b)) = right_bound
         \<and> change_x (snd (check_wall_collision b)) = - \<bar>change_x b\<bar> * WALL_BOUNCE
         \<and> center_y (snd (check_wall_collision b)) = center_y b
         \<and> change_y (snd (check_wall_collision b)) = change_y b)
   \<and> (left_bound \<le> ball_left b \<and> ball_right b \<le> right_bound
        \<and> ball_bottom b < bottom_bound \<longrightarrow>
         ball_bottom (snd (check_wall_collision b)) = bottom_bound
         \<and> change_y (snd (check_wall_collision b)) = \<bar>change_y b\<bar> * WALL_BOUNCE
         \<and> center_x (snd (check_wall_collision b)) = center_x b
         \<and> change_x (snd (check_wall_collision b)) = change_x b)
   \<and> (left_bound \<le> ball_left b \<and> ball_right b \<le> right_bound
        \<and> \<not> ball_bottom b < bottom_bound \<and> ball_top b > top_bound \<longrightarrow>
         ball_top (snd (check_wall_collision b)) = top_bound
         \<and> change_y (snd (check_wall_collision b)) = - \<bar>change_y b\<bar> * WALL_BOUNCE
         \<and> center_x (snd (check_wall_collision b)) = center_x b
         \<and> change_x (snd (check_wall_collision b)) = change_x b)
   \<and> ((left_bound \<le> ball_left b \<and> ball_right b \<le> right_bound)
        \<or> (bottom_bound \<le> ball_bottom b \<and> ball_top b \<le> top_bound) \<longrightarrow>
         inside_bounds (snd (check_wall_collision b)))"
  by (simp add: wall_defs)


theorem wall_collision_first_wall_witness:
  "inside_bounds (new_ball 300 350 CUE 0 0)
   \<and> check_wall_collision (new_ball 300 350 CUE 0 0) = (False, new_ball 300 350 CUE 0 0)
   \<and> \<not> inside_bounds ((new_ball 70 350 CUE 0 0)\<lparr>change_x := - 10\<rparr>)
   \<and> ball_left ((new_ball 70 350 CUE 0 0)\<lparr>change_x := - 10\<rparr>) < left_bound
   \<and> fst (check_wall_collision ((new_ball 70 350 CUE 0 0)\<lparr>change_x := - 10\<rparr>))
   \<and> center_x (snd (check_wall_collision ((new_ball 70 350 CUE 0 0)\<lparr>change_x := - 10\<rparr>))) = 79
   \<and> change_x (snd (check_wall_collision ((new_ball 70 350 CUE 0 0)\<lparr>change_x := - 10\<rparr>))) = 7.8
   \<and> inside_bounds (snd (check_wall_collision ((new_ball 70 350 CUE 0 0)\<lparr>change_x := - 10\<rparr>)))
   \<and> ball_right ((new_ball 1130 350 CUE 0 0)\<lparr>change_x := 10\<rparr>) > right_bound
   \<and> center_x (snd (check_wall_collision ((new_ball 1130 350 CUE 0 0)\<lparr>change_x := 10\<rparr>))) = 1121
   \<and> change_x (snd (check_wall_collision ((new_ball 1130 350 CUE 0 0)\<lparr>change_x := 10\<rparr>))) = - 7.8
   \<and> ball_bottom ((new_ball 300 70 CUE 0 0)\<lparr>change_y := - 10\<rparr>) < bottom_bound
   \<and> center_y (snd (check_wall_collision ((new_ball 300 70 CUE 0 0)\<lparr>change_y := - 10\<rparr>))) = 79
   \<and> change_y (snd (check_wall_collision ((new_ball 300 70 CUE 0 0)\<lparr>change_y := - 10\<rparr>))) = 7.8
   \<and> ball_top ((new_ball 300 630 CUE 0 0)\<lparr>change_y := 10\<rparr>) > top_bound
   \<and> center_y (snd (check_wall_collision ((new_ball 300 630 CUE 0 0)\<lparr>change_y := 10\<rparr>))) = 621
   \<and> change_y (snd (check_wall_collision ((new_ball 300 630 CUE 0 0)\<lparr>change_y := 10\<rparr>))) = - 7.8"
  using wall_collision_first_wall [of "new_ball 300 350 CUE 0 0"]
    wall_collision_first_wall [of "(new_ball 70 350 CUE 0 0)\<lparr>change_x := - 10\<rparr>"]
    wall_collision_first_wall [of "(new_ball 1130 350 CUE 0 0)\<lparr>change_x := 10\<rparr>"]
    wall_collision_first_wall [of "(new_ball 300 70 CUE 0 0)\<lparr>change_y := - 10\<rparr>"]
    wall_collision_first_wall [of "(new_ball 300 630 CUE 0 0)\<lparr>change_y := 10\<rparr>"]
  by (simp add: wall_defs new_ball_def)

section \<open>Properties of the pocket check\<close>

lemma pocket_scan_find:
  "pocket_scan ball ps = List.find (\<lambda>p. pocket_distance ball p < POCKET_RADIUS) ps"
  by (induction ps) simp_all

lemma pocket_scan_none:
  "pocket_scan ball ps = None \<longleftrightarrow> (\<forall>p \<in> set ps. POCKET_RADIUS \<le> pocket_distance ball p)"
  by (induction ps) (auto simp: not_less)

lemma sqrt_1089: "sqrt (1089::real) = 33"
  by (rule real_sqrt_unique) simp_all

lemma far_from_pocket: "(32::real)\<^sup>2 \<le> x \<Longrightarrow> 32 \<le> sqrt x"
  by (rule real_le_rsqrt)

lemma sqrt_less_32: "sqrt x < 32 \<longleftrightarrow> x < 1024"
proof -
  have "sqrt (1024::real) = 32" by (rule real_sqrt_unique) simp_all
  then have "sqrt x < 32 \<longleftrightarrow> sqrt x < sqrt 1024" by simp
  then show ?thesis by (simp only: real_sqrt_less_iff)
qed

lemma pocket_events:
  "snd (check_pocket_collisions ps balls) =
     List.map_filter
       (\<lambda>b. if in_pocket b then None else map_option (\<lambda>q. (number b, q)) (pocket_scan b ps))
       balls"
  by (induction balls) (auto split: prod.splits option.splits)

lemma pocket_survivors:
  "fst (check_pocket_collisions ps balls) =
     List.map_filter
       (\<lambda>b. if in_pocket b then Some b
            else (case pocket_scan b ps of None \<Rightarrow> Some b | Some q \<Rightarrow> on_ball_potted b))
       balls"
  by (induction balls) (auto split: prod.splits option.splits)

lemma map_filter_member:
  "x \<in> set xs \<Longrightarrow> f x = Some y \<Longrightarrow> y \<in> set (List.map_filter f xs)"
  by (induction xs) (auto split: option.splits)

lemma captured_in_any_list:
  assumes "ball \<in> set balls" "\<not> in_pocket ball" "pocket_scan ball ps = Some q"
  shows "(number ball, q) \<in> set (snd (check_pocket_collisions ps balls))"
  unfolding pocket_events
  by (rule map_filter_member [OF assms(1)]) (simp add: assms)

lemma not_captured_stays:
  assumes "ball \<in> set balls" "pocket_scan ball ps = None"
  shows "ball \<in> set (fst (check_pocket_collisions ps balls))"
  unfolding pocket_survivors
  by (rule map_filter_member [OF assms(1)]) (simp add: assms)

lemma nothing_captured:
  "\<forall>b \<in> set balls. pocket_scan b ps = None \<Longrightarrow> check_pocket_collisions ps balls = (balls, [])"
  by (induction balls) simp_all

text \<open>
  C8. For every list of pockets and every list of balls: a ball at distance exactly 0 from
  one of the pockets is captured, and when it is in the list and not yet flagged as pocketed
  the pocket check reports a capture for it; a ball at distance exactly
  \<open>POCKET_RADIUS + 1\<close> from every pocket (more generally, at least \<open>POCKET_RADIUS\<close> from
  every pocket) is not captured and stays in the list; the pocket of a capture is the first
  one in list order whose distance from the ball's center is below \<open>POCKET_RADIUS\<close>. The
  events raised by the outer loop are exactly these captures of the balls not flagged as
  pocketed, in list order, and the balls left are the uncaptured ones together with the
  respawned cue ball.
\<close>

theorem pocket_capture_first_match:
  "(p \<in> set ps \<and> pocket_distance ball p = 0 \<longrightarrow> pocket_scan ball ps \<noteq> None)
   \<and> ((\<forall>p \<in> set ps. pocket_distance ball p = POCKET_RADIUS + 1) \<longrightarrow> pocket_scan ball ps = None)
   \<and> ((\<forall>p \<in> set ps. POCKET_RADIUS \<le> pocket_distance ball p) \<longrightarrow> pocket_scan ball ps = None)
   \<and> (pocket_scan ball ps = Some q \<longleftrightarrow>
        (\<exists>i < length ps. ps ! i = q \<and> pocket_distance ball q < POCKET_RADIUS
           \<and> (\<forall>k < i. \<not> pocket_distance ball (ps ! k) < POCKET_RADIUS)))
   \<and> snd (check_pocket_collisions ps balls) =
        List.map_filter
          (\<lambda>b. if in_pocket b then None
               else map_option (\<lambda>q. (number b, q)) (pocket_scan b ps))
          balls
   \<and> fst (check_pocket_collisions ps balls) =
        List.map_filter
          (\<lambda>b. if in_pocket b then Some b
               else (case pocket_scan b ps of None \<Rightarrow> Some b | Some q \<Rightarrow> on_ball_potted b))
          balls
   \<and> (ball \<in> set balls \<and> \<not> in_pocket ball \<and> p \<in> set ps \<and> pocket_distance ball p = 0 \<longrightarrow>
        (\<exists>q'. (number ball, q') \<in> set (snd (check_pocket_collisions ps balls))))
   \<and> (ball \<in> set balls \<and> (\<forall>p \<in> set ps. pocket_distance ball p = POCKET_RADIUS + 1) \<longrightarrow>
        ball \<in> set (fst (check_pocket_collisions ps balls)))
   \<and> ((\<forall>b \<in> set balls. \<forall>p \<in> set ps. POCKET_RADIUS \<le> pocket_distance b p) \<longrightarrow>
        check_pocket_collisions ps balls = (balls, []))"
proof -
  have a: "pocket_scan ball ps \<noteq> None" if "p \<in> set ps" "pocket_distance ball p = 0"
  proof
    assume "pocket_scan ball ps = None"
    then have "POCKET_RADIUS \<le> pocket_distance ball p"
      using that(1) by (simp add: pocket_scan_none)
    then show False using that(2) by (simp add: POCKET_RADIUS_def)
  qed
  have b: "pocket_scan ball ps = None" if "\<forall>p \<in> set ps. pocket_distance ball p = POCKET_RADIUS + 1"
    using that by (simp add: pocket_scan_none)
  have c: "pocket_scan ball ps = None" if "\<forall>p \<in> set ps. POCKET_RADIUS \<le> pocket_distance ball p"
    using that by (simp add: pocket_scan_none)
  have d: "pocket_scan ball ps = Some q \<longleftrightarrow>
        (\<exists>i < length ps. ps ! i = q \<and> pocket_distance ball q < POCKET_RADIUS
           \<and> (\<forall>k < i. \<not> pocket_distance ball (ps ! k) < POCKET_RADIUS))"
    unfolding pocket_scan_find find_Some_iff by blast
  have e: "\<exists>q'. (number ball, q') \<in> set (snd (check_pocket_collisions ps balls))"
    if "ball \<in> set balls" "\<not> in_pocket ball" "p \<in> set ps" "pocket_distance ball p = 0"
  proof -
    from a [OF that(3,4)] obtain q' where "pocket_scan ball ps = Some q'" by blast
    from captured_in_any_list [OF that(1,2) this] show ?thesis by blast
  qed
  have f: "ball \<in> set (fst (check_pocket_collisions ps balls))"
    if "ball \<in> set balls" "\<forall>p \<in> set ps. pocket_distance ball p = POCKET_RADIUS + 1"
    using not_captured_stays [OF that(1) b [OF that(2)]] .
  have g: "check_pocket_collisions ps balls = (balls, [])"
    if "\<forall>b \<in> set balls. \<forall>p \<in> set ps. POCKET_RADIUS \<le> pocket_distance b p"
    using that by (intro nothing_captured) (simp add: pocket_scan_none)
  from a b c d e f g pocket_events [of ps balls] pocket_survivors [of ps balls]
  show ?thesis by blast
qed

theorem pocket_capture_first_match_witness:
  "(60, 60) \<in> set pocket_locations
   \<and> pocket_distance (new_ball 60 60 SOLID 3 0) (60, 60) = 0
   \<and> pocket_scan (new_ball 60 60 SOLID 3 0) pocket_locations = Some (60, 60)
   \<and> pocket_distance (new_ball 93 60 SOLID 5 0) (60, 60) = POCKET_RADIUS + 1
   \<and> pocket_scan (new_ball 93 60 SOLID 5 0) [(60, 60)] = None
   \<and> list_all (\<lambda>p. POCKET_RADIUS \<le> pocket_distance (new_ball 93 60 SOLID 5 0) p) pocket_locations
   \<and> pocket_scan (new_ball 93 60 SOLID 5 0) pocket_locations = None
   \<and> check_pocket_collisions pocket_locations
        [new_ball 93 60 SOLID 5 0, new_ball 60 60 SOLID 3 0, new_ball 600 50 CUE 0 0]
      = ([new_ball 93 60 SOLID 5 0, new_ball 300 350 CUE 0 0],
         [(3, (60, 60)), (0, (600, 50))])
   \<and> check_pocket_collisions pocket_locations
        [new_ball 93 60 SOLID 5 0, new_ball 300 350 SOLID 1 0]
      = ([new_ball 93 60 SOLID 5 0, new_ball 300 350 SOLID 1 0], [])"
  using pocket_capture_first_match
      [of "(60, 60)" pocket_locations "new_ball 60 60 SOLID 3 0" "(60, 60)"
          "[new_ball 93 60 SOLID 5 0, new_ball 60 60 SOLID 3 0, new_ball 600 50 CUE 0 0]"]
    pocket_capture_first_match
      [of "(60, 60)" "[(60, 60)]" "new_ball 93 60 SOLID 5 0" "(60, 60)"
          "[new_ball 93 60 SOLID 5 0]"]
    pocket_capture_first_match
      [of "(60, 60)" pocket_locations "new_ball 93 60 SOLID 5 0" "(60, 60)"
          "[new_ball 93 60 SOLID 5 0, new_ball 300 350 SOLID 1 0]"]
  by (simp add: pocket_locations_def pocket_distance_def new_ball_def POCKET_RADIUS_def
        SCREEN_WIDTH_def SCREEN_HEIGHT_def on_ball_potted_def sqrt_1089 far_from_pocket
        sqrt_less_32)

end
